theory Spec2Isabelle
  imports Main
begin

section \<open>JavaScript values handled by the Privacy class\<close>

text \<open>
  The values that flow through \<^verbatim>\<open>src/lib/privacy.js\<close> are the JSON-like trees the
  consent service resolves with, and the \<^verbatim>\<open>TypeError\<close> instances that the runtime creates
  when a property of \<^verbatim>\<open>undefined\<close> or \<^verbatim>\<open>null\<close> is read. An object is the list of its own
  properties, where the first binding of a name is the one a read sees. Numbers are
  integers: the program only tests a number for being zero. A \<^verbatim>\<open>TypeError\<close> carries the name
  of the property whose read failed. Getters, proxies and properties inherited from
  prototypes are outside the model; the program reads none of the built-in ones.
\<close>

datatype jsval =
    JUndefined
  | JNull
  | JBool bool
  | JNum int
  | JStr string
  | JArr "jsval list"
  | JObj "(string \<times> jsval) list"
  | JTypeError string

text \<open>\<^verbatim>\<open>v == null\<close>: the two values whose properties cannot be read.\<close>

definition nullish :: "jsval \<Rightarrow> bool" where
  "nullish v = (v = JUndefined \<or> v = JNull)"

text \<open>The conversion to a boolean that \<^verbatim>\<open>&&\<close>, \<^verbatim>\<open>!\<close> and \<^verbatim>\<open>if\<close> apply.\<close>

fun truthy :: "jsval \<Rightarrow> bool" where
  "truthy JUndefined = False"
| "truthy JNull = False"
| "truthy (JBool b) = b"
| "truthy (JNum n) = (n \<noteq> 0)"
| "truthy (JStr s) = (s \<noteq> [])"
| "truthy (JArr xs) = True"
| "truthy (JObj kvs) = True"
| "truthy (JTypeError m) = True"

text \<open>\<^verbatim>\<open>Array.isArray(v)\<close> and \<^verbatim>\<open>typeof v\<close>.\<close>

fun isArray :: "jsval \<Rightarrow> bool" where
  "isArray (JArr xs) = True"
| "isArray v = False"

fun typeof :: "jsval \<Rightarrow> string" where
  "typeof JUndefined = ''undefined''"
| "typeof JNull = ''object''"
| "typeof (JBool b) = ''boolean''"
| "typeof (JNum n) = ''number''"
| "typeof (JStr s) = ''string''"
| "typeof (JArr xs) = ''object''"
| "typeof (JObj kvs) = ''object''"
| "typeof (JTypeError m) = ''object''"

text \<open>
  The value of \<^verbatim>\<open>v.name\<close> for a base \<open>v\<close> that is neither \<^verbatim>\<open>undefined\<close> nor \<^verbatim>\<open>null\<close>,
  for the identifier-named properties the program reads (\<^verbatim>\<open>result\<close>, \<^verbatim>\<open>approved\<close>,
  \<^verbatim>\<open>reason\<close>, \<^verbatim>\<open>messageId\<close>, \<^verbatim>\<open>response\<close>, \<^verbatim>\<open>data\<close>, \<^verbatim>\<open>status\<close>): only an object has them.
\<close>

fun lookup :: "jsval \<Rightarrow> string \<Rightarrow> jsval" where
  "lookup (JObj kvs) name = (case map_of kvs name of None \<Rightarrow> JUndefined | Some v \<Rightarrow> v)"
| "lookup v name = JUndefined"

text \<open>The value of \<^verbatim>\<open>v[0]\<close> for such a base.\<close>

fun index0 :: "jsval \<Rightarrow> jsval" where
  "index0 (JArr xs) = (case xs of [] \<Rightarrow> JUndefined | x # rest \<Rightarrow> x)"
| "index0 (JStr s) = (case s of [] \<Rightarrow> JUndefined | c # rest \<Rightarrow> JStr [c])"
| "index0 (JObj kvs) = lookup (JObj kvs) ''0''"
| "index0 v = JUndefined"

text \<open>
  Property reads as the runtime performs them: \<open>Inl\<close> is the thrown \<^verbatim>\<open>TypeError\<close>
  ("Cannot read properties of undefined (reading 'name')"), \<open>Inr\<close> the value read.
\<close>

definition getProp :: "jsval \<Rightarrow> string \<Rightarrow> jsval + jsval" where
  "getProp v name = (if nullish v then Inl (JTypeError name) else Inr (lookup v name))"

definition getIndex0 :: "jsval \<Rightarrow> jsval + jsval" where
  "getIndex0 v = (if nullish v then Inl (JTypeError ''0'') else Inr (index0 v))"

section \<open>Request items and the consent service\<close>

text \<open>
  A string-valued property of a request item: not set (a read gives \<^verbatim>\<open>undefined\<close>),
  \<^verbatim>\<open>null\<close>, or a string.
\<close>

datatype str_field = Absent | Null | Str string

record request_item =
  purposeId :: str_field
  accessTypeId :: str_field
  attributeId :: str_field
  attributeValue :: str_field

text \<open>
  The collaborator \<^verbatim>\<open>DPCMService\<close> is not part of the class: each of its three operations is
  a parameter, giving for its arguments either the value its promise resolves with
  (\<open>Inr\<close>) or the failure it rejects with (\<open>Inl\<close>). Every call made is recorded.
\<close>

record service =
  requestApproval :: "request_item list \<Rightarrow> jsval + jsval"
  getConsentMetadata_dpcm :: "str_field list \<Rightarrow> jsval + jsval"
  processConsentMetadata :: "string list \<Rightarrow> jsval \<Rightarrow> jsval + jsval"

datatype call =
    RequestApproval "request_item list"
  | GetConsentMetadata "str_field list"
  | ProcessConsentMetadata "string list" jsval

section \<open>assess\<close>

text \<open>\<^verbatim>\<open>ia.result && ia.result[0].approved\<close>, as a condition (line 127).\<close>

definition cond_approved :: "jsval \<Rightarrow> jsval + bool" where
  "cond_approved ia =
     (case getProp ia ''result'' of Inl e \<Rightarrow> Inl e
      | Inr r \<Rightarrow>
          if \<not> truthy r then Inr False
          else (case getIndex0 r of Inl e \<Rightarrow> Inl e
                | Inr entry \<Rightarrow>
                    (case getProp entry ''approved'' of Inl e \<Rightarrow> Inl e
                     | Inr a \<Rightarrow> Inr (truthy a))))"

text \<open>\<^verbatim>\<open>ia.result && ia.result[0].reason.messageId === "CSIBT0033I"\<close> (line 135).\<close>

definition cond_consent :: "jsval \<Rightarrow> jsval + bool" where
  "cond_consent ia =
     (case getProp ia ''result'' of Inl e \<Rightarrow> Inl e
      | Inr r \<Rightarrow>
          if \<not> truthy r then Inr False
          else (case getIndex0 r of Inl e \<Rightarrow> Inl e
                | Inr entry \<Rightarrow>
                    (case getProp entry ''reason'' of Inl e \<Rightarrow> Inl e
                     | Inr reason \<Rightarrow>
                         (case getProp reason ''messageId'' of Inl e \<Rightarrow> Inl e
                          | Inr m \<Rightarrow> Inr (m = JStr ''CSIBT0033I'')))))"

text \<open>
  The loop of lines 124 to 140 over the elements still to visit; \<open>status\<close> is the
  variable of that name, \<open>None\<close> for \<^verbatim>\<open>null\<close>. A throw leaves the loop.
\<close>

fun scan :: "string option \<Rightarrow> jsval list \<Rightarrow> jsval + string option" where
  "scan status [] = Inr status"
| "scan status (ia # rest) =
     (case cond_approved ia of Inl e \<Rightarrow> Inl e
      | Inr True \<Rightarrow> scan (if status = None then Some ''approved'' else status) rest
      | Inr False \<Rightarrow>
          (case cond_consent ia of Inl e \<Rightarrow> Inl e
           | Inr True \<Rightarrow> scan (Some ''consent'') rest
           | Inr False \<Rightarrow> scan status rest))"

text \<open>The \<^verbatim>\<open>catch (error)\<close> block shared by both operations (lines 147-156, 296-305).\<close>

definition catch_block :: "jsval \<Rightarrow> jsval + jsval" where
  "catch_block error =
     (case getProp error ''response'' of Inl e \<Rightarrow> Inl e
      | Inr response \<Rightarrow>
          (case getProp response ''data'' of Inl e \<Rightarrow> Inl e
           | Inr d \<Rightarrow>
               if truthy d then Inr (JObj [(''status'', JStr ''error''), (''detail'', d)])
               else Inr (JObj [(''status'', JStr ''error'')])))"

definition invalid_datatype :: "jsval \<Rightarrow> jsval" where
  "invalid_datatype assessment =
     JObj [(''status'', JStr ''error''),
           (''data'', JObj [(''messageId'', JStr ''INVALID_DATATYPE''),
                            (''messageDescription'',
                             JStr ([CHR 0x27] @ ''assessment'' @ [CHR 0x27]
                                   @ '' is expected to be an array. Received ''
                                   @ typeof assessment))])]"

text \<open>The elements a \<^verbatim>\<open>for ... of\<close> loop visits in an array.\<close>

fun elements :: "jsval \<Rightarrow> jsval list" where
  "elements (JArr xs) = xs"
| "elements v = []"

text \<open>The \<^verbatim>\<open>try\<close> block of \<^verbatim>\<open>assess\<close>, after the collaborator has answered.\<close>

definition assess_try :: "jsval + jsval \<Rightarrow> jsval + jsval" where
  "assess_try answer =
     (case answer of Inl e \<Rightarrow> Inl e
      | Inr assessment \<Rightarrow>
          if \<not> isArray assessment then Inr (invalid_datatype assessment)
          else (case scan None (elements assessment) of Inl e \<Rightarrow> Inl e
                | Inr status \<Rightarrow>
                    Inr (JObj [(''status'',
                                JStr (case status of None \<Rightarrow> ''denied'' | Some s \<Rightarrow> s)),
                               (''assessment'', assessment)])))"

text \<open>
  \<^verbatim>\<open>assess(items)\<close>: the promise's outcome (\<open>Inl\<close> rejected with, \<open>Inr\<close> resolved with)
  and the calls made to the collaborator. \<open>svc\<close> is the object that
  \<^verbatim>\<open>new DPCMService(this._auth, this._config.tenantUrl, this._context)\<close> gives at line 107,
  before the \<^verbatim>\<open>try\<close>. The \<^verbatim>\<open>debug\<close> calls only log, and \<^verbatim>\<open>JSON.stringify\<close> does not throw
  on the values above, so they leave no trace in the outcome.
\<close>

definition assess :: "service \<Rightarrow> request_item list \<Rightarrow> (jsval + jsval) \<times> call list" where
  "assess svc items =
     ((case assess_try (requestApproval svc items) of
         Inl error \<Rightarrow> catch_block error
       | Inr v \<Rightarrow> Inr v),
      [RequestApproval items])"

section \<open>getConsentMetadata\<close>

text \<open>
  A \<^verbatim>\<open>Set\<close> is the list of its members in insertion order; \<^verbatim>\<open>add\<close> keeps one copy.
\<close>

definition set_add :: "'a \<Rightarrow> 'a list \<Rightarrow> 'a list" where
  "set_add x members = (if x \<in> set members then members else members @ [x])"

text \<open>Truthiness of a field, \<^verbatim>\<open>field == null\<close>, and its conversion in a template literal.\<close>

fun field_truthy :: "str_field \<Rightarrow> bool" where
  "field_truthy Absent = False"
| "field_truthy Null = False"
| "field_truthy (Str s) = (s \<noteq> [])"

fun field_nullish :: "str_field \<Rightarrow> bool" where
  "field_nullish Absent = True"
| "field_nullish Null = True"
| "field_nullish (Str s) = False"

fun to_string :: "str_field \<Rightarrow> string" where
  "to_string Absent = ''undefined''"
| "to_string Null = ''null''"
| "to_string (Str s) = s"

text \<open>
  Modelled from the spec: \<^verbatim>\<open>StringUtils.getOrDefault\<close> (\<^verbatim>\<open>src/lib/utils/stringUtils.js\<close>
  is not among the sources). The specification writes the key's parts as
  "attributeId(or empty)" and "accessTypeId(or empty)": the value when there is one,
  the given default when it is missing.
\<close>

definition getOrDefault :: "str_field \<Rightarrow> string \<Rightarrow> str_field" where
  "getOrDefault v dflt = (case v of Str s \<Rightarrow> Str s | Null \<Rightarrow> Str dflt | Absent \<Rightarrow> Str dflt)"

text \<open>Lines 280 to 282: the item after the access type has been defaulted in place.\<close>

definition default_accessTypeId :: "request_item \<Rightarrow> request_item" where
  "default_accessTypeId item =
     (if \<not> field_truthy (accessTypeId item) \<or> field_nullish (accessTypeId item)
      then item\<lparr>accessTypeId := Str ''default''\<rparr>
      else item)"

text \<open>The template literal of line 284.\<close>

definition item_name :: "request_item \<Rightarrow> string" where
  "item_name item =
     to_string (purposeId item) @ ''/'' @ to_string (getOrDefault (attributeId item) [])
     @ ''.'' @ to_string (getOrDefault (accessTypeId item) [])"

text \<open>
  The loop of lines 277 to 285 over the items still to visit. It gives the items as the
  caller finds them afterwards, and the two sets. An object listed twice is defaulted
  once and found defaulted the second time, which gives the same item.
\<close>

fun collect ::
  "str_field list \<Rightarrow> string list \<Rightarrow> request_item list
   \<Rightarrow> request_item list \<times> str_field list \<times> string list" where
  "collect purposes itemNameSet [] = ([], purposes, itemNameSet)"
| "collect purposes itemNameSet (item # rest) =
     (case collect (set_add (purposeId item) purposes)
             (set_add (item_name (default_accessTypeId item)) itemNameSet) rest of
        (rest', purposes', itemNameSet') \<Rightarrow>
          (default_accessTypeId item # rest', purposes', itemNameSet'))"

text \<open>
  \<^verbatim>\<open>getConsentMetadata(items)\<close>: the caller's items afterwards, the promise's outcome, and
  the calls made to the collaborator.
\<close>

definition getConsentMetadata ::
  "service \<Rightarrow> request_item list \<Rightarrow> request_item list \<times> (jsval + jsval) \<times> call list" where
  "getConsentMetadata svc items =
     (case collect [] [] items of
        (items', purposes, itemNameSet) \<Rightarrow>
          (case getConsentMetadata_dpcm svc purposes of
             Inl error \<Rightarrow> (items', catch_block error, [GetConsentMetadata purposes])
           | Inr response \<Rightarrow>
               (case processConsentMetadata svc itemNameSet response of
                  Inl error \<Rightarrow>
                    (items', catch_block error,
                     [GetConsentMetadata purposes, ProcessConsentMetadata itemNameSet response])
                | Inr metadata \<Rightarrow>
                    (items', Inr (JObj [(''status'', JStr ''done''), (''metadata'', metadata)]),
                     [GetConsentMetadata purposes,
                      ProcessConsentMetadata itemNameSet response]))))"

section \<open>Construction\<close>

text \<open>
  Modelled from the spec: \<^verbatim>\<open>StringUtils.has\<close> (\<^verbatim>\<open>src/lib/utils/stringUtils.js\<close> is not
  among the sources). The specification reads \<^verbatim>\<open>!StringUtils.has(config, 'tenantUrl')\<close> as
  "the configuration lacks a tenant endpoint field": the object has a property of that name.
\<close>

definition has :: "(string \<times> jsval) list \<Rightarrow> string \<Rightarrow> bool" where
  "has dict key = (map_of dict key \<noteq> None)"

datatype exn = ConfigurationError string

record privacy =
  p_config :: "(string \<times> jsval) list"
  p_auth :: "(string \<times> jsval) list"
  p_context :: "(string \<times> jsval) list"

text \<open>
  \<^verbatim>\<open>new Privacy(config, auth, context)\<close> for objects \<open>config\<close> and \<open>auth\<close>; \<open>context\<close> is
  \<open>None\<close> when the argument is left out and the parameter takes its default \<^verbatim>\<open>{}\<close>. The
  result is the thrown error or the instance with its fields \<^verbatim>\<open>_config\<close>, \<^verbatim>\<open>_auth\<close> and
  \<^verbatim>\<open>_context\<close>, together with the calls made to the collaborator.
\<close>

definition constructor ::
  "(string \<times> jsval) list \<Rightarrow> (string \<times> jsval) list \<Rightarrow> (string \<times> jsval) list option
   \<Rightarrow> (exn + privacy) \<times> call list" where
  "constructor config auth context =
     (if \<not> has config ''tenantUrl''
      then (Inl (ConfigurationError (''Cannot find property '' @ [CHR 0x27] @ ''tenantUrl''
                   @ [CHR 0x27] @ '' in configuration settings.'')), [])
      else if \<not> has auth ''accessToken''
      then (Inl (ConfigurationError (''Cannot find property '' @ [CHR 0x27] @ ''accessToken''
                   @ [CHR 0x27] @ '' in auth'')), [])
      else (Inr \<lparr>p_config = config, p_auth = auth,
                 p_context = (case context of None \<Rightarrow> [] | Some c \<Rightarrow> c)\<rparr>, []))"

section \<open>Vocabulary of the specification\<close>

text \<open>The first entry of an item's result, \<^verbatim>\<open>ia.result[0]\<close>.\<close>

definition first_entry :: "jsval \<Rightarrow> jsval" where
  "first_entry ia = index0 (lookup ia ''result'')"

text \<open>An item whose first result entry is approved.\<close>

definition approved_item :: "jsval \<Rightarrow> bool" where
  "approved_item ia =
     (truthy (lookup ia ''result'') \<and> truthy (lookup (first_entry ia) ''approved''))"

text \<open>
  An item whose first result entry is not approved and whose reason's messageId is the
  code for "consent required".
\<close>

definition consent_item :: "jsval \<Rightarrow> bool" where
  "consent_item ia =
     (truthy (lookup ia ''result'') \<and> \<not> truthy (lookup (first_entry ia) ''approved'')
      \<and> lookup (lookup (first_entry ia) ''reason'') ''messageId'' = JStr ''CSIBT0033I'')"

text \<open>
  An item the loop body runs through without a \<^verbatim>\<open>TypeError\<close>: it is not \<^verbatim>\<open>undefined\<close> or
  \<^verbatim>\<open>null\<close>, and when it has a truthy result, the first entry is there and is either approved
  or has a reason.
\<close>

definition scannable :: "jsval \<Rightarrow> bool" where
  "scannable ia =
     (\<not> nullish ia \<and>
      (if truthy (lookup ia ''result'')
       then \<not> nullish (first_entry ia) \<and>
            (truthy (lookup (first_entry ia) ''approved'')
             \<or> \<not> nullish (lookup (first_entry ia) ''reason''))
       else True))"

text \<open>
  An item whose result is absent, or whose result is an array with a first entry that is
  not approved and has a reason without a messageId.
\<close>

definition skipped_item :: "jsval \<Rightarrow> bool" where
  "skipped_item ia =
     (\<not> nullish ia \<and>
      (case lookup ia ''result'' of
         JUndefined \<Rightarrow> True
       | JArr (entry # others) \<Rightarrow>
           \<not> nullish entry \<and> \<not> truthy (lookup entry ''approved'')
           \<and> \<not> nullish (lookup entry ''reason'')
           \<and> lookup (lookup entry ''reason'') ''messageId'' = JUndefined
       | _ \<Rightarrow> False))"

text \<open>
  What a caller reads as \<^verbatim>\<open>(await p).status\<close> from an operation's promise, a rejection
  staying a rejection.
\<close>

definition status_of :: "jsval + jsval \<Rightarrow> jsval + jsval" where
  "status_of outcome = (case outcome of Inl e \<Rightarrow> Inl e | Inr v \<Rightarrow> getProp v ''status'')"

text \<open>
  The requested slot key as the specification writes it:
  purposeId + "/" + attributeId (or empty) + "." + accessTypeId (or empty).
\<close>

definition or_empty :: "str_field \<Rightarrow> string" where
  "or_empty v = (case v of Str s \<Rightarrow> s | Null \<Rightarrow> [] | Absent \<Rightarrow> [])"

definition RequestedSlotKey :: "request_item \<Rightarrow> string" where
  "RequestedSlotKey item =
     to_string (purposeId item) @ ''/'' @ or_empty (attributeId item) @ ''.''
     @ or_empty (accessTypeId item)"

section \<open>Test doubles and sample data\<close>

text \<open>A collaborator whose first two operations settle with a fixed answer.\<close>

definition stub_service :: "jsval + jsval \<Rightarrow> service" where
  "stub_service answer =
     \<lparr>requestApproval = (\<lambda>items. answer),
      getConsentMetadata_dpcm = (\<lambda>purposes. answer),
      processConsentMetadata = (\<lambda>itemNameSet response. Inr response)\<rparr>"

definition approved_example :: jsval where
  "approved_example = JObj [(''result'', JArr [JObj [(''approved'', JBool True)]])]"

definition consent_example :: jsval where
  "consent_example =
     JObj [(''result'',
            JArr [JObj [(''approved'', JBool False),
                        (''reason'', JObj [(''messageId'', JStr ''CSIBT0033I'')])]])]"

definition denied_example :: jsval where
  "denied_example =
     JObj [(''result'',
            JArr [JObj [(''approved'', JBool False),
                        (''reason'', JObj [(''messageId'', JStr ''CSIBT0035I'')])]])]"

definition no_reason_example :: jsval where
  "no_reason_example = JObj [(''result'', JArr [JObj [(''approved'', JBool False)]])]"

definition empty_result_example :: jsval where
  "empty_result_example = JObj [(''result'', JArr [])]"

definition no_messageId_example :: jsval where
  "no_messageId_example =
     JObj [(''purposeId'', JStr ''p1''),
           (''result'', JArr [JObj [(''approved'', JBool False), (''reason'', JObj [])],
                              JObj [(''approved'', JBool True)]])]"

definition network_error :: jsval where
  "network_error = JObj [(''message'', JStr ''Network Error'')]"

definition remote_error :: jsval where
  "remote_error =
     JObj [(''response'',
            JObj [(''data'', JObj [(''messageId'', JStr ''E1''),
                                   (''messageDescription'', JStr ''bad'')])])]"

definition item_p1 :: request_item where
  "item_p1 = \<lparr>purposeId = Str ''p1'', accessTypeId = Absent, attributeId = Absent,
             attributeValue = Absent\<rparr>"

definition item_p2 :: request_item where
  "item_p2 = \<lparr>purposeId = Str ''p2'', accessTypeId = Str ''read'', attributeId = Str ''email'',
             attributeValue = Null\<rparr>"

section \<open>Properties of the aggregation loop\<close>

lemma truthy_not_nullish: "truthy v \<Longrightarrow> \<not> nullish v"
  by (auto simp: nullish_def)

text \<open>On a scannable item the two conditions of the loop body evaluate to the two predicates.\<close>

lemma cond_approved_scannable: "scannable ia \<Longrightarrow> cond_approved ia = Inr (approved_item ia)"
  by (auto simp: scannable_def cond_approved_def approved_item_def getProp_def getIndex0_def
      first_entry_def truthy_not_nullish split: if_splits)

lemma cond_consent_scannable:
  "scannable ia \<Longrightarrow> \<not> approved_item ia \<Longrightarrow> cond_consent ia = Inr (consent_item ia)"
  by (auto simp: scannable_def cond_consent_def approved_item_def consent_item_def getProp_def
      getIndex0_def first_entry_def truthy_not_nullish split: if_splits)

lemma consent_not_approved: "consent_item ia \<Longrightarrow> \<not> approved_item ia"
  by (simp add: consent_item_def approved_item_def)

text \<open>The status the loop ends with, from any status it starts with.\<close>

lemma scan_scannable:
  "\<forall>x\<in>set xs. scannable x \<Longrightarrow>
   scan st xs =
     Inr (if \<exists>x\<in>set xs. consent_item x then Some ''consent''
          else if st = None \<and> (\<exists>x\<in>set xs. approved_item x) then Some ''approved''
          else st)"
proof (induction xs arbitrary: st)
  case Nil
  then show ?case by simp
next
  case (Cons ia rest)
  then have ok: "scannable ia" and rest: "\<forall>x\<in>set rest. scannable x" by simp_all
  note IH = Cons.IH [OF rest]
  show ?case
  proof (cases "approved_item ia")
    case True
    then have nc: "\<not> consent_item ia" using consent_not_approved by blast
    show ?thesis
      using True nc cond_approved_scannable [OF ok] by (simp add: IH)
  next
    case False
    show ?thesis
      using False cond_approved_scannable [OF ok] cond_consent_scannable [OF ok False]
      by (cases "consent_item ia") (simp_all add: IH)
  qed
qed

text \<open>Conversely, a loop that ends has met scannable items only, and a throw is a TypeError.\<close>

lemma step_scannable:
  "cond_approved ia = Inr b \<Longrightarrow> (b \<or> cond_consent ia = Inr c) \<Longrightarrow> scannable ia"
  by (auto simp: scannable_def cond_approved_def cond_consent_def getProp_def getIndex0_def
      first_entry_def split: if_splits sum.splits)

lemma scan_returns_scannable: "scan st xs = Inr st' \<Longrightarrow> \<forall>x\<in>set xs. scannable x"
proof (induction xs arbitrary: st)
  case Nil
  then show ?case by simp
next
  case (Cons ia rest)
  then show ?case
    by (auto split: sum.splits bool.splits intro: step_scannable)
qed

lemma cond_approved_throws: "cond_approved ia = Inl e \<Longrightarrow> \<exists>n. e = JTypeError n"
  by (auto simp: cond_approved_def getProp_def getIndex0_def split: if_splits sum.splits)

lemma cond_consent_throws: "cond_consent ia = Inl e \<Longrightarrow> \<exists>n. e = JTypeError n"
  by (auto simp: cond_consent_def getProp_def getIndex0_def split: if_splits sum.splits)

lemma scan_throws: "scan st xs = Inl e \<Longrightarrow> \<exists>n. e = JTypeError n"
proof (induction xs arbitrary: st)
  case Nil
  then show ?case by simp
next
  case (Cons ia rest)
  then show ?case
    by (auto split: sum.splits bool.splits dest: cond_approved_throws cond_consent_throws)
qed

text \<open>An item on which both conditions are false, or the same as on another item.\<close>

lemma scan_skip:
  "cond_approved ia = Inr False \<Longrightarrow> cond_consent ia = Inr False \<Longrightarrow>
   scan st (xs @ ia # ys) = scan st (xs @ ys)"
  by (induction xs arbitrary: st) (simp_all split: sum.splits bool.splits)

lemma scan_same_conds:
  "cond_approved a = cond_approved b \<Longrightarrow> cond_consent a = cond_consent b \<Longrightarrow>
   scan st (xs @ a # ys) = scan st (xs @ b # ys)"
  by (induction xs arbitrary: st) (simp_all split: sum.splits bool.splits)

lemma skipped_conds:
  "skipped_item ia \<Longrightarrow> cond_approved ia = Inr False \<and> cond_consent ia = Inr False"
  by (auto simp: skipped_item_def cond_approved_def cond_consent_def getProp_def getIndex0_def
      nullish_def split: jsval.splits list.splits)

lemma conds_first_entry:
  assumes "lookup ia ''result'' = JArr (entry # others)"
    and "lookup ia' ''result'' = JArr (entry # others')"
  shows "cond_approved ia = cond_approved ia' \<and> cond_consent ia = cond_consent ia'"
proof -
  have "\<not> nullish ia" "\<not> nullish ia'"
    using assms by (auto simp: nullish_def)
  then show ?thesis
    using assms
    by (simp add: cond_approved_def cond_consent_def getProp_def getIndex0_def nullish_def)
qed

section \<open>The catch block and the outcome of assess\<close>

text \<open>
  A failure with a \<^verbatim>\<open>response\<close> is turned into a value; a \<^verbatim>\<open>TypeError\<close> of the runtime has
  no \<^verbatim>\<open>response\<close>, and reading \<^verbatim>\<open>data\<close> from it throws again.
\<close>

lemma catch_block_response:
  "\<not> nullish error \<Longrightarrow> \<not> nullish (lookup error ''response'') \<Longrightarrow>
   catch_block error =
     Inr (if truthy (lookup (lookup error ''response'') ''data'')
          then JObj [(''status'', JStr ''error''),
                     (''detail'', lookup (lookup error ''response'') ''data'')]
          else JObj [(''status'', JStr ''error'')])"
  by (simp add: catch_block_def getProp_def)

lemma catch_block_TypeError: "catch_block (JTypeError n) = Inl (JTypeError ''data'')"
  by (simp add: catch_block_def getProp_def nullish_def)

lemma assess_array:
  "requestApproval svc items = Inr (JArr xs) \<Longrightarrow>
   fst (assess svc items) =
     (case scan None xs of
        Inl e \<Rightarrow> catch_block e
      | Inr status \<Rightarrow>
          Inr (JObj [(''status'', JStr (case status of None \<Rightarrow> ''denied'' | Some s \<Rightarrow> s)),
                     (''assessment'', JArr xs)]))"
  by (simp add: assess_def assess_try_def split: sum.splits)

lemma status_of_assess_array:
  "requestApproval svc items = Inr (JArr xs) \<Longrightarrow>
   status_of (fst (assess svc items)) =
     (case scan None xs of
        Inl e \<Rightarrow> catch_block e
      | Inr status \<Rightarrow> Inr (JStr (case status of None \<Rightarrow> ''denied'' | Some s \<Rightarrow> s)))"
  using scan_throws [of None xs]
  by (auto simp: assess_array status_of_def getProp_def nullish_def catch_block_TypeError
      split: sum.splits)

section \<open>Claims about assess\<close>

text \<open>
  Claim C1, as amended. When the collaborator's requestApproval resolves with an array
  whose every item the loop can scan without a TypeError, and at least one item has a
  first result entry that is not approved and carries the reason messageId "CSIBT0033I",
  assess resolves with status "consent" and the array untouched, however many other
  items are approved and wherever they stand.
\<close>

theorem assess_consent_precedence:
  assumes "requestApproval svc items = Inr (JArr xs)"
    and "\<forall>x\<in>set xs. scannable x"
    and "ia \<in> set xs"
    and "consent_item ia"
  shows "fst (assess svc items) =
           Inr (JObj [(''status'', JStr ''consent''), (''assessment'', JArr xs)])"
proof -
  have "scan None xs = Inr (Some ''consent'')"
    using assms(3,4) scan_scannable [OF assms(2), of None] by auto
  then show ?thesis
    by (simp add: assess_array [OF assms(1)])
qed

text \<open>An approved item before and after the consent item, and a plainly denied one.\<close>

theorem assess_consent_precedence_witness:
  "requestApproval (stub_service (Inr (JArr [approved_example, consent_example, approved_example,
       denied_example]))) [] =
     Inr (JArr [approved_example, consent_example, approved_example, denied_example])
   \<and> scannable approved_example \<and> scannable consent_example \<and> scannable denied_example
   \<and> consent_item consent_example
   \<and> fst (assess (stub_service (Inr (JArr [approved_example, consent_example, approved_example,
       denied_example]))) []) =
       Inr (JObj [(''status'', JStr ''consent''),
                  (''assessment'', JArr [approved_example, consent_example, approved_example,
                     denied_example])])"
  using assess_consent_precedence [of "stub_service (Inr (JArr [approved_example, consent_example,
      approved_example, denied_example]))" "[]"
      "[approved_example, consent_example, approved_example, denied_example]" consent_example]
  by (simp add: stub_service_def scannable_def consent_item_def first_entry_def nullish_def
      approved_example_def consent_example_def denied_example_def)

text \<open>
  Claim C1 as stated fails: an array with a consent item and an item whose result is the
  empty array makes the promise reject.
\<close>

theorem assess_consent_unscannable_counterexample:
  "consent_item consent_example
   \<and> consent_example \<in> set [consent_example, empty_result_example]
   \<and> fst (assess (stub_service (Inr (JArr [consent_example, empty_result_example]))) []) =
       Inl (JTypeError ''data'')"
  by (simp add: stub_service_def assess_def assess_try_def cond_approved_def cond_consent_def
      getProp_def getIndex0_def nullish_def catch_block_def consent_item_def first_entry_def
      consent_example_def empty_result_example_def)

text \<open>
  Claim C2. The loop reads a result array at index 0 only: two items whose result arrays
  have the same first entry give the same overall status. An item whose result is absent,
  or whose first result entry is not approved and has a reason without a messageId, makes
  both conditions of the loop body false without a throw, and the overall status (or the
  rejection) is what it is for the array without that item.
\<close>

theorem assess_skips_items:
  assumes "requestApproval svc items = Inr (JArr (xs @ ia # ys))"
  shows "(skipped_item ia \<longrightarrow>
            cond_approved ia = Inr False \<and> cond_consent ia = Inr False
            \<and> status_of (fst (assess svc items)) =
                status_of (fst (assess (svc\<lparr>requestApproval := \<lambda>items. Inr (JArr (xs @ ys))\<rparr>)
                                  items)))
         \<and> (\<forall>entry others others' ia'.
              lookup ia ''result'' = JArr (entry # others)
              \<and> lookup ia' ''result'' = JArr (entry # others') \<longrightarrow>
              status_of (fst (assess svc items)) =
                status_of (fst (assess (svc\<lparr>requestApproval :=
                                              \<lambda>items. Inr (JArr (xs @ ia' # ys))\<rparr>) items)))"
proof (intro conjI impI allI)
  assume s: "skipped_item ia"
  show "cond_approved ia = Inr False" "cond_consent ia = Inr False"
    using skipped_conds [OF s] by simp_all
  then have "scan None (xs @ ia # ys) = scan None (xs @ ys)"
    by (rule scan_skip)
  then show "status_of (fst (assess svc items)) =
      status_of (fst (assess (svc\<lparr>requestApproval := \<lambda>items. Inr (JArr (xs @ ys))\<rparr>) items))"
    by (simp add: status_of_assess_array [OF assms] status_of_assess_array [of _ _ "xs @ ys"])
next
  fix entry others others' ia'
  assume "lookup ia ''result'' = JArr (entry # others)
          \<and> lookup ia' ''result'' = JArr (entry # others')"
  then have "cond_approved ia = cond_approved ia' \<and> cond_consent ia = cond_consent ia'"
    using conds_first_entry by blast
  then have "scan None (xs @ ia # ys) = scan None (xs @ ia' # ys)"
    using scan_same_conds by blast
  then show "status_of (fst (assess svc items)) =
      status_of (fst (assess (svc\<lparr>requestApproval := \<lambda>items. Inr (JArr (xs @ ia' # ys))\<rparr>)
                        items))"
    by (simp add: status_of_assess_array [OF assms]
        status_of_assess_array [of _ _ "xs @ ia' # ys"])
qed

text \<open>
  An item with a reason but no messageId (and an approved second entry that is never read)
  between an approved and a denied item; an item with no result at all is skipped too.
\<close>

theorem assess_skips_items_witness:
  "skipped_item no_messageId_example
   \<and> skipped_item (JObj [(''purposeId'', JStr ''p1'')])
   \<and> status_of (fst (assess (stub_service
        (Inr (JArr ([approved_example] @ no_messageId_example # [denied_example])))) [])) =
       Inr (JStr ''approved'')
   \<and> status_of (fst (assess
        ((stub_service (Inr (JArr ([approved_example] @ no_messageId_example # [denied_example]))))
           \<lparr>requestApproval := \<lambda>items. Inr (JArr ([approved_example] @ [denied_example]))\<rparr>) [])) =
       Inr (JStr ''approved'')"
  using assess_skips_items [of
      "stub_service (Inr (JArr ([approved_example] @ no_messageId_example # [denied_example])))"
      "[]" "[approved_example]" no_messageId_example "[denied_example]"]
  by (simp add: stub_service_def skipped_item_def nullish_def no_messageId_example_def
      approved_example_def denied_example_def status_of_def assess_def assess_try_def
      cond_approved_def cond_consent_def getProp_def getIndex0_def)

text \<open>
  Claim C3, at a failure the code does not turn into a value. A collaborator failure
  without a \<^verbatim>\<open>response\<close> (a refused connection, say) makes the catch block of either
  operation throw while it reads \<^verbatim>\<open>error.response.data\<close>, and the promise rejects; a
  failure with a response payload is returned under \<^verbatim>\<open>detail\<close>.
\<close>

theorem catch_block_needs_response:
  "fst (assess (stub_service (Inl network_error)) []) = Inl (JTypeError ''data'')
   \<and> fst (snd (getConsentMetadata (stub_service (Inl network_error)) [item_p1])) =
       Inl (JTypeError ''data'')
   \<and> fst (assess (stub_service (Inl remote_error)) []) =
       Inr (JObj [(''status'', JStr ''error''),
                  (''detail'', JObj [(''messageId'', JStr ''E1''),
                                     (''messageDescription'', JStr ''bad'')])])"
  by (simp add: stub_service_def assess_def assess_try_def getConsentMetadata_def catch_block_def
      getProp_def nullish_def network_error_def remote_error_def item_p1_def)

text \<open>
  Claim C4, as amended. When the collaborator resolves with an array whose every item the
  loop can scan without a TypeError, and no item has an approved first result entry and
  none carries the reason messageId "CSIBT0033I", assess resolves with status "denied";
  the empty array is such an array.
\<close>

theorem assess_denied:
  assumes "requestApproval svc items = Inr (JArr xs)"
    and "\<forall>x\<in>set xs. scannable x \<and> \<not> approved_item x \<and> \<not> consent_item x"
  shows "fst (assess svc items) =
           Inr (JObj [(''status'', JStr ''denied''), (''assessment'', JArr xs)])"
proof -
  have "\<forall>x\<in>set xs. scannable x" using assms(2) by blast
  then have "scan None xs = Inr None"
    using assms(2) by (simp add: scan_scannable)
  then show ?thesis
    by (simp add: assess_array [OF assms(1)])
qed

text \<open>The empty array, and an array of two plainly denied items.\<close>

theorem assess_denied_witness:
  "fst (assess (stub_service (Inr (JArr []))) []) =
     Inr (JObj [(''status'', JStr ''denied''), (''assessment'', JArr [])])
   \<and> scannable denied_example \<and> \<not> approved_item denied_example
   \<and> \<not> consent_item denied_example
   \<and> fst (assess (stub_service (Inr (JArr [denied_example, denied_example]))) []) =
       Inr (JObj [(''status'', JStr ''denied''),
                  (''assessment'', JArr [denied_example, denied_example])])"
  using assess_denied [of "stub_service (Inr (JArr []))" "[]" "[]"]
    assess_denied [of "stub_service (Inr (JArr [denied_example, denied_example]))" "[]"
      "[denied_example, denied_example]"]
  by (simp add: stub_service_def scannable_def approved_item_def consent_item_def first_entry_def
      nullish_def denied_example_def)

text \<open>
  Claim C4 as stated fails: one item that is not approved and has no reason at all is
  neither approved nor a consent item, and the promise rejects.
\<close>

theorem assess_denied_no_reason_counterexample:
  "\<not> approved_item no_reason_example \<and> \<not> consent_item no_reason_example
   \<and> fst (assess (stub_service (Inr (JArr [no_reason_example]))) []) = Inl (JTypeError ''data'')"
  by (simp add: stub_service_def approved_item_def consent_item_def first_entry_def
      no_reason_example_def assess_def assess_try_def cond_approved_def cond_consent_def
      getProp_def getIndex0_def nullish_def catch_block_def)

text \<open>
  Claim C5. When requestApproval resolves with a value that is not an array, assess
  resolves with status "error" and a data field whose messageId is "INVALID_DATATYPE" and
  whose messageDescription ends with the \<^verbatim>\<open>typeof\<close> of the value received; nothing of the
  value but its type enters the result.
\<close>

theorem assess_invalid_datatype:
  assumes "requestApproval svc items = Inr v"
    and "\<not> isArray v"
  shows "fst (assess svc items) =
           Inr (JObj [(''status'', JStr ''error''),
                      (''data'',
                       JObj [(''messageId'', JStr ''INVALID_DATATYPE''),
                             (''messageDescription'',
                              JStr ([CHR 0x27] @ ''assessment'' @ [CHR 0x27]
                                    @ '' is expected to be an array. Received ''
                                    @ typeof v))])])"
  using assms by (simp add: assess_def assess_try_def invalid_datatype_def)

theorem assess_invalid_datatype_witness:
  "\<not> isArray (JStr ''oops'')
   \<and> fst (assess (stub_service (Inr (JStr ''oops''))) []) =
       Inr (JObj [(''status'', JStr ''error''),
                  (''data'',
                   JObj [(''messageId'', JStr ''INVALID_DATATYPE''),
                         (''messageDescription'',
                          JStr ([CHR 0x27] @ ''assessment'' @ [CHR 0x27]
                                @ '' is expected to be an array. Received string''))])])"
  using assess_invalid_datatype [of "stub_service (Inr (JStr ''oops''))" "[]" "JStr ''oops''"]
  by (simp add: stub_service_def)

text \<open>
  Claim C9. A response with one approved item and one item denied with a reason messageId
  other than "CSIBT0033I" gives status "approved", in either order. In general an array
  the loop scans through, with an approved item and no consent item, gives "approved"
  whatever else it holds; and when the status is "denied", no item is approved and no
  item is a consent item.
\<close>

theorem assess_approved_despite_denied:
  "fst (assess (stub_service (Inr (JArr [approved_example, denied_example]))) items) =
     Inr (JObj [(''status'', JStr ''approved''),
                (''assessment'', JArr [approved_example, denied_example])])
   \<and> fst (assess (stub_service (Inr (JArr [denied_example, approved_example]))) items) =
       Inr (JObj [(''status'', JStr ''approved''),
                  (''assessment'', JArr [denied_example, approved_example])])
   \<and> (\<forall>svc xs.
        requestApproval svc items = Inr (JArr xs) \<longrightarrow>
        (((\<forall>x\<in>set xs. scannable x) \<and> (\<exists>x\<in>set xs. approved_item x)
          \<and> (\<forall>x\<in>set xs. \<not> consent_item x) \<longrightarrow>
          fst (assess svc items) =
            Inr (JObj [(''status'', JStr ''approved''), (''assessment'', JArr xs)]))
         \<and> (status_of (fst (assess svc items)) = Inr (JStr ''denied'') \<longrightarrow>
            (\<forall>x\<in>set xs. \<not> approved_item x \<and> \<not> consent_item x))))"
proof (intro conjI allI impI)
  show "fst (assess (stub_service (Inr (JArr [approved_example, denied_example]))) items) =
     Inr (JObj [(''status'', JStr ''approved''),
                (''assessment'', JArr [approved_example, denied_example])])"
    by (simp add: stub_service_def assess_def assess_try_def cond_approved_def cond_consent_def
        getProp_def getIndex0_def nullish_def approved_example_def denied_example_def)
  show "fst (assess (stub_service (Inr (JArr [denied_example, approved_example]))) items) =
       Inr (JObj [(''status'', JStr ''approved''),
                  (''assessment'', JArr [denied_example, approved_example])])"
    by (simp add: stub_service_def assess_def assess_try_def cond_approved_def cond_consent_def
        getProp_def getIndex0_def nullish_def approved_example_def denied_example_def)
next
  fix svc :: service and xs
  assume r: "requestApproval svc items = Inr (JArr xs)"
  assume "(\<forall>x\<in>set xs. scannable x) \<and> (\<exists>x\<in>set xs. approved_item x)
          \<and> (\<forall>x\<in>set xs. \<not> consent_item x)"
  then have "scan None xs = Inr (Some ''approved'')"
    by (simp add: scan_scannable)
  then show "fst (assess svc items) =
      Inr (JObj [(''status'', JStr ''approved''), (''assessment'', JArr xs)])"
    by (simp add: assess_array [OF r])
next
  fix svc :: service and xs
  assume r: "requestApproval svc items = Inr (JArr xs)"
  assume d: "status_of (fst (assess svc items)) = Inr (JStr ''denied'')"
  from d obtain st where st: "scan None xs = Inr st"
    and den: "(case st of None \<Rightarrow> ''denied'' | Some s \<Rightarrow> s) = ''denied''"
    using scan_throws [of None xs]
    by (auto simp: status_of_assess_array [OF r] catch_block_TypeError split: sum.splits)
  have ok: "\<forall>x\<in>set xs. scannable x"
    using scan_returns_scannable [OF st] .
  have "st = None"
    using st den by (auto simp: scan_scannable [OF ok] split: if_splits)
  then show "\<forall>x\<in>set xs. \<not> approved_item x \<and> \<not> consent_item x"
    using st by (auto simp: scan_scannable [OF ok] split: if_splits)
qed

theorem assess_approved_despite_denied_witness:
  "approved_item approved_example
   \<and> \<not> approved_item denied_example \<and> \<not> consent_item denied_example
   \<and> lookup (lookup (first_entry denied_example) ''reason'') ''messageId'' = JStr ''CSIBT0035I''
   \<and> fst (assess (stub_service (Inr (JArr [approved_example, denied_example]))) []) =
       Inr (JObj [(''status'', JStr ''approved''),
                  (''assessment'', JArr [approved_example, denied_example])])
   \<and> status_of (fst (assess (stub_service (Inr (JArr [denied_example]))) [])) =
       Inr (JStr ''denied'')"
  using assess_approved_despite_denied [of "[]"]
  by (simp add: stub_service_def assess_def assess_try_def cond_approved_def cond_consent_def
      getProp_def getIndex0_def nullish_def approved_example_def denied_example_def
      approved_item_def consent_item_def first_entry_def status_of_def)

text \<open>
  Claim C10. When requestApproval resolves with an array holding an item whose result is
  the empty array, the first condition of the loop body throws a TypeError on that item
  (it reads \<^verbatim>\<open>approved\<close> from the undefined first entry), the loop ends in a TypeError,
  the catch block throws a second TypeError reading \<^verbatim>\<open>data\<close> from the missing
  \<^verbatim>\<open>response\<close> of the first, and the promise of assess rejects with it.
\<close>

theorem assess_empty_result_rejects:
  assumes "requestApproval svc items = Inr (JArr xs)"
    and "ia \<in> set xs"
    and "lookup ia ''result'' = JArr []"
  shows "cond_approved ia = Inl (JTypeError ''approved'')
         \<and> (\<exists>n. scan None xs = Inl (JTypeError n)
                \<and> catch_block (JTypeError n) = Inl (JTypeError ''data''))
         \<and> fst (assess svc items) = Inl (JTypeError ''data'')"
proof -
  have nn: "\<not> nullish ia"
    using assms(3) by (auto simp: nullish_def)
  then have c: "cond_approved ia = Inl (JTypeError ''approved'')"
    using assms(3) by (simp add: cond_approved_def getProp_def getIndex0_def nullish_def)
  have "\<not> scannable ia"
    using assms(3) by (simp add: scannable_def first_entry_def nullish_def)
  then have "\<forall>st. scan None xs \<noteq> Inr st"
    using assms(2) scan_returns_scannable by blast
  then obtain n where n: "scan None xs = Inl (JTypeError n)"
    using scan_throws [of None xs] by (cases "scan None xs") auto
  show ?thesis
    using c n by (simp add: assess_array [OF assms(1)] catch_block_TypeError)
qed

theorem assess_empty_result_rejects_witness:
  "approved_example \<in> set [approved_example, empty_result_example]
   \<and> empty_result_example \<in> set [approved_example, empty_result_example]
   \<and> lookup empty_result_example ''result'' = JArr []
   \<and> cond_approved empty_result_example = Inl (JTypeError ''approved'')
   \<and> fst (assess (stub_service (Inr (JArr [approved_example, empty_result_example]))) []) =
       Inl (JTypeError ''data'')"
  using assess_empty_result_rejects [of
      "stub_service (Inr (JArr [approved_example, empty_result_example]))" "[]"
      "[approved_example, empty_result_example]" empty_result_example]
  by (simp add: stub_service_def empty_result_example_def)

section \<open>Properties of the item loop of getConsentMetadata\<close>

text \<open>The template literal builds the key the specification describes.\<close>

lemma item_name_RequestedSlotKey: "item_name item = RequestedSlotKey item"
  by (simp add: item_name_def RequestedSlotKey_def getOrDefault_def or_empty_def
      split: str_field.splits)

lemma set_add_set: "set (set_add x members) = insert x (set members)"
  by (auto simp: set_add_def)

lemma set_add_distinct: "distinct members \<Longrightarrow> distinct (set_add x members)"
  by (simp add: set_add_def)

lemma collect_items: "fst (collect purposes names items) = map default_accessTypeId items"
  by (induction items arbitrary: purposes names) (simp_all add: case_prod_unfold)

lemma collect_names_set:
  "set (snd (snd (collect purposes names items))) =
     set names \<union> (\<lambda>item. item_name (default_accessTypeId item)) ` set items"
  by (induction items arbitrary: purposes names) (auto simp: set_add_set case_prod_unfold)

lemma collect_names_distinct:
  "distinct names \<Longrightarrow> distinct (snd (snd (collect purposes names items)))"
  by (induction items arbitrary: purposes names)
    (simp_all add: set_add_distinct case_prod_unfold)

lemma collect_same:
  "default_accessTypeId a = default_accessTypeId b \<Longrightarrow> purposeId a = purposeId b \<Longrightarrow>
   collect purposes names (pre @ a # post) = collect purposes names (pre @ b # post)"
  by (induction pre arbitrary: purposes names) simp_all

lemma getConsentMetadata_items:
  "fst (getConsentMetadata svc items) = map default_accessTypeId items"
  using collect_items [of "[]" "[]" items]
  by (auto simp: getConsentMetadata_def split: prod.splits sum.splits)

lemma getConsentMetadata_process_call:
  "ProcessConsentMetadata keys response \<in> set (snd (snd (getConsentMetadata svc items))) \<Longrightarrow>
   keys = snd (snd (collect [] [] items))"
  by (auto simp: getConsentMetadata_def split: prod.splits sum.splits)

lemma default_accessTypeId_frame:
  "purposeId (default_accessTypeId item) = purposeId item
   \<and> attributeId (default_accessTypeId item) = attributeId item
   \<and> attributeValue (default_accessTypeId item) = attributeValue item"
  by (simp add: default_accessTypeId_def)

lemma default_accessTypeId_nullish:
  "field_nullish (accessTypeId item) \<Longrightarrow>
   default_accessTypeId item = item\<lparr>accessTypeId := Str ''default''\<rparr>"
  by (cases "accessTypeId item") (simp_all add: default_accessTypeId_def)

lemma default_accessTypeId_same:
  "default_accessTypeId (item\<lparr>accessTypeId := Absent\<rparr>) =
     default_accessTypeId (item\<lparr>accessTypeId := Str ''default''\<rparr>)
   \<and> default_accessTypeId (item\<lparr>accessTypeId := Null\<rparr>) =
       default_accessTypeId (item\<lparr>accessTypeId := Str ''default''\<rparr>)"
  by (simp add: default_accessTypeId_def)

text \<open>The name of an item after defaulting, in terms of the item as it was given.\<close>

lemma default_item_name:
  "item_name (default_accessTypeId item) =
     to_string (purposeId item) @ ''/'' @ or_empty (attributeId item) @ ''.''
     @ (if field_truthy (accessTypeId item) then or_empty (accessTypeId item) else ''default'')"
  by (cases "accessTypeId item")
    (simp_all add: item_name_def default_accessTypeId_def getOrDefault_def or_empty_def
      split: str_field.splits)


section \<open>Claims about getConsentMetadata and construction\<close>

text \<open>
  Claim C6. For every input item the name computed after the access type has been
  defaulted is its purposeId, "/", its attributeId, "." and its accessTypeId joined, a
  missing attributeId giving the empty string and the accessTypeId being "default" where
  the item had none. The names handed to processConsentMetadata are exactly the names of
  the input items, each name once, however often it was computed; they are also the names
  of the caller's items as they are after the call. They are handed on whenever the
  catalog request resolves.
\<close>

theorem getConsentMetadata_slot_keys:
  assumes "getConsentMetadata svc items = (items', outcome, calls)"
  shows "(\<forall>item. item_name item =
            to_string (purposeId item) @ ''/'' @ or_empty (attributeId item) @ ''.''
            @ or_empty (accessTypeId item))
         \<and> (\<forall>item. item_name (default_accessTypeId item) =
              to_string (purposeId item) @ ''/'' @ or_empty (attributeId item) @ ''.''
              @ (if field_truthy (accessTypeId item) then or_empty (accessTypeId item)
                 else ''default''))
         \<and> items' = map default_accessTypeId items
         \<and> (\<forall>keys response. ProcessConsentMetadata keys response \<in> set calls \<longrightarrow>
              distinct keys
              \<and> set keys = (\<lambda>item. RequestedSlotKey (default_accessTypeId item)) ` set items
              \<and> set keys =
                  (\<lambda>item. to_string (purposeId item) @ ''/'' @ or_empty (attributeId item)
                           @ ''.''
                           @ (if field_truthy (accessTypeId item)
                              then or_empty (accessTypeId item) else ''default'')) ` set items
              \<and> set keys = RequestedSlotKey ` set items')
         \<and> (\<forall>response. getConsentMetadata_dpcm svc (fst (snd (collect [] [] items))) = Inr response
              \<longrightarrow> (\<exists>keys. ProcessConsentMetadata keys response \<in> set calls))"
proof (intro conjI allI impI)
  fix item
  show "item_name item =
      to_string (purposeId item) @ ''/'' @ or_empty (attributeId item) @ ''.''
      @ or_empty (accessTypeId item)"
    using item_name_RequestedSlotKey [of item] by (simp add: RequestedSlotKey_def)
next
  fix item
  show "item_name (default_accessTypeId item) =
      to_string (purposeId item) @ ''/'' @ or_empty (attributeId item) @ ''.''
      @ (if field_truthy (accessTypeId item) then or_empty (accessTypeId item) else ''default'')"
    by (rule default_item_name)
next
  show i: "items' = map default_accessTypeId items"
    using getConsentMetadata_items [of svc items] assms by simp
  fix keys response
  assume "ProcessConsentMetadata keys response \<in> set calls"
  then have k: "keys = snd (snd (collect [] [] items))"
    using getConsentMetadata_process_call [of keys response svc items] assms by simp
  show input: "set keys = (\<lambda>item. RequestedSlotKey (default_accessTypeId item)) ` set items"
    by (simp add: k collect_names_set item_name_RequestedSlotKey)
  have "set keys = (\<lambda>item. item_name (default_accessTypeId item)) ` set items"
    by (simp add: k collect_names_set)
  then show "set keys =
      (\<lambda>item. to_string (purposeId item) @ ''/'' @ or_empty (attributeId item) @ ''.''
               @ (if field_truthy (accessTypeId item)
                  then or_empty (accessTypeId item) else ''default'')) ` set items"
    by (simp only: default_item_name)
  show "set keys = RequestedSlotKey ` set items'"
    using input by (auto simp: i)
  show "distinct keys"
    by (simp add: k collect_names_distinct)
next
  fix response
  assume "getConsentMetadata_dpcm svc (fst (snd (collect [] [] items))) = Inr response"
  then show "\<exists>keys. ProcessConsentMetadata keys response \<in> set calls"
    using assms by (auto simp: getConsentMetadata_def split: prod.splits sum.splits)
qed

text \<open>Three input items, the first and the third with the same key.\<close>

theorem getConsentMetadata_slot_keys_witness:
  "getConsentMetadata (stub_service (Inr (JObj []))) [item_p1, item_p2, item_p1] =
     ([item_p1\<lparr>accessTypeId := Str ''default''\<rparr>, item_p2,
       item_p1\<lparr>accessTypeId := Str ''default''\<rparr>],
      Inr (JObj [(''status'', JStr ''done''), (''metadata'', JObj [])]),
      [GetConsentMetadata [Str ''p1'', Str ''p2''],
       ProcessConsentMetadata [''p1/.default'', ''p2/email.read''] (JObj [])])
   \<and> distinct [''p1/.default'', ''p2/email.read'']
   \<and> set [''p1/.default'', ''p2/email.read''] =
       (\<lambda>item. RequestedSlotKey (default_accessTypeId item)) ` set [item_p1, item_p2, item_p1]
   \<and> RequestedSlotKey (default_accessTypeId item_p1) = ''p1/.default''
   \<and> RequestedSlotKey (default_accessTypeId item_p2) = ''p2/email.read''
   \<and> set [''p1/.default'', ''p2/email.read''] =
       RequestedSlotKey ` set [item_p1\<lparr>accessTypeId := Str ''default''\<rparr>, item_p2,
                               item_p1\<lparr>accessTypeId := Str ''default''\<rparr>]"
  using getConsentMetadata_slot_keys [of "stub_service (Inr (JObj []))"
      "[item_p1, item_p2, item_p1]"
      "[item_p1\<lparr>accessTypeId := Str ''default''\<rparr>, item_p2,
        item_p1\<lparr>accessTypeId := Str ''default''\<rparr>]"
      "Inr (JObj [(''status'', JStr ''done''), (''metadata'', JObj [])])"
      "[GetConsentMetadata [Str ''p1'', Str ''p2''],
        ProcessConsentMetadata [''p1/.default'', ''p2/email.read''] (JObj [])]"]
  by (simp add: getConsentMetadata_def stub_service_def item_p1_def item_p2_def set_add_def
      default_accessTypeId_def item_name_def getOrDefault_def RequestedSlotKey_def or_empty_def)


text \<open>
  Claim C7. After getConsentMetadata the caller's items are as many as before, each with
  its purposeId, attributeId and attributeValue as they were; an item whose accessTypeId
  was absent or null has the accessTypeId "default", and that is the access type in its
  key. An item given without accessTypeId (or with null) and the same item given with
  accessTypeId "default" lead to the same items, the same outcome and the same calls.
\<close>

theorem getConsentMetadata_defaults_accessTypeId:
  "length (fst (getConsentMetadata svc items)) = length items
   \<and> (\<forall>i<length items.
        purposeId (fst (getConsentMetadata svc items) ! i) = purposeId (items ! i)
        \<and> attributeId (fst (getConsentMetadata svc items) ! i) = attributeId (items ! i)
        \<and> attributeValue (fst (getConsentMetadata svc items) ! i) = attributeValue (items ! i)
        \<and> (accessTypeId (items ! i) = Absent \<or> accessTypeId (items ! i) = Null \<longrightarrow>
              accessTypeId (fst (getConsentMetadata svc items) ! i) = Str ''default''
              \<and> item_name (fst (getConsentMetadata svc items) ! i) =
                  to_string (purposeId (items ! i)) @ ''/'' @ or_empty (attributeId (items ! i))
                  @ ''.default''))
   \<and> getConsentMetadata svc (pre @ item\<lparr>accessTypeId := Absent\<rparr> # post) =
       getConsentMetadata svc (pre @ item\<lparr>accessTypeId := Str ''default''\<rparr> # post)
   \<and> getConsentMetadata svc (pre @ item\<lparr>accessTypeId := Null\<rparr> # post) =
       getConsentMetadata svc (pre @ item\<lparr>accessTypeId := Str ''default''\<rparr> # post)"
proof (intro conjI allI impI)
  show "length (fst (getConsentMetadata svc items)) = length items"
    by (simp add: getConsentMetadata_items)
next
  fix i assume i: "i < length items"
  show "purposeId (fst (getConsentMetadata svc items) ! i) = purposeId (items ! i)"
    "attributeId (fst (getConsentMetadata svc items) ! i) = attributeId (items ! i)"
    "attributeValue (fst (getConsentMetadata svc items) ! i) = attributeValue (items ! i)"
    using i by (simp_all add: getConsentMetadata_items default_accessTypeId_frame)
  assume "accessTypeId (items ! i) = Absent \<or> accessTypeId (items ! i) = Null"
  then have n: "field_nullish (accessTypeId (items ! i))" by auto
  show "accessTypeId (fst (getConsentMetadata svc items) ! i) = Str ''default''"
    using i by (simp add: getConsentMetadata_items default_accessTypeId_nullish [OF n])
  show "item_name (fst (getConsentMetadata svc items) ! i) =
      to_string (purposeId (items ! i)) @ ''/'' @ or_empty (attributeId (items ! i)) @ ''.default''"
    using i
    by (simp add: getConsentMetadata_items default_accessTypeId_nullish [OF n]
        item_name_RequestedSlotKey RequestedSlotKey_def or_empty_def)
next
  show "getConsentMetadata svc (pre @ item\<lparr>accessTypeId := Absent\<rparr> # post) =
       getConsentMetadata svc (pre @ item\<lparr>accessTypeId := Str ''default''\<rparr> # post)"
    using collect_same [of "item\<lparr>accessTypeId := Absent\<rparr>"
        "item\<lparr>accessTypeId := Str ''default''\<rparr>" "[]" "[]" pre post]
    by (simp add: getConsentMetadata_def default_accessTypeId_same)
  show "getConsentMetadata svc (pre @ item\<lparr>accessTypeId := Null\<rparr> # post) =
       getConsentMetadata svc (pre @ item\<lparr>accessTypeId := Str ''default''\<rparr> # post)"
    using collect_same [of "item\<lparr>accessTypeId := Null\<rparr>"
        "item\<lparr>accessTypeId := Str ''default''\<rparr>" "[]" "[]" pre post]
    by (simp add: getConsentMetadata_def default_accessTypeId_same)
qed

text \<open>The items are defaulted also when the collaborator fails.\<close>

theorem getConsentMetadata_defaults_accessTypeId_witness:
  "accessTypeId ([item_p1, item_p2] ! 0) = Absent
   \<and> fst (getConsentMetadata (stub_service (Inl network_error)) [item_p1, item_p2]) =
       [item_p1\<lparr>accessTypeId := Str ''default''\<rparr>, item_p2]
   \<and> item_name (fst (getConsentMetadata (stub_service (Inl network_error)) [item_p1, item_p2]) ! 0)
       = ''p1/.default''"
  using getConsentMetadata_defaults_accessTypeId [of "stub_service (Inl network_error)"
      "[item_p1, item_p2]"]
  by (simp add: getConsentMetadata_def stub_service_def item_p1_def item_p2_def set_add_def
      default_accessTypeId_def item_name_def getOrDefault_def)

text \<open>
  Claim C8. Construction throws a ConfigurationError exactly when the configuration has no
  tenantUrl property or the auth object has no accessToken property. Otherwise the
  instance holds the configuration, the auth object and the context as they were given
  (the empty object for a context left out). No call to the collaborator is made.
\<close>

theorem constructor_configuration:
  "((\<exists>msg. fst (constructor config auth context) = Inl (ConfigurationError msg)) \<longleftrightarrow>
      ''tenantUrl'' \<notin> fst ` set config \<or> ''accessToken'' \<notin> fst ` set auth)
   \<and> (''tenantUrl'' \<in> fst ` set config \<and> ''accessToken'' \<in> fst ` set auth \<longrightarrow>
        fst (constructor config auth context) =
          Inr \<lparr>p_config = config, p_auth = auth,
               p_context = (case context of None \<Rightarrow> [] | Some c \<Rightarrow> c)\<rparr>)
   \<and> snd (constructor config auth context) = []"
  by (auto simp: constructor_def has_def map_of_eq_None_iff)

theorem constructor_configuration_witness:
  "fst (constructor [(''tenantUrl'', JStr ''https://tenant.example'')]
          [(''accessToken'', JStr ''token'')] (Some [(''subjectId'', JStr ''u1'')])) =
     Inr \<lparr>p_config = [(''tenantUrl'', JStr ''https://tenant.example'')],
          p_auth = [(''accessToken'', JStr ''token'')],
          p_context = [(''subjectId'', JStr ''u1'')]\<rparr>
   \<and> (\<exists>msg. fst (constructor [(''tenantUrl'', JStr ''https://tenant.example'')] [] None) =
          Inl (ConfigurationError msg))
   \<and> (\<exists>msg. fst (constructor [] [(''accessToken'', JStr ''token'')] None) =
          Inl (ConfigurationError msg))"
  using constructor_configuration [of "[(''tenantUrl'', JStr ''https://tenant.example'')]"
      "[(''accessToken'', JStr ''token'')]" "Some [(''subjectId'', JStr ''u1'')]"]
    constructor_configuration [of "[(''tenantUrl'', JStr ''https://tenant.example'')]" "[]" None]
    constructor_configuration [of "[]" "[(''accessToken'', JStr ''token'')]" None]
  by simp

end
